theory Spec2Isabelle
  imports Main
begin

section \<open>Data model of the root component\<close>

text \<open>
  The root component \<open>Dapp\<close> (Dapp.tsx) keeps a React state bag \<open>DappState\<close> whose eight
  fields are all optional, five private members (\<open>_provider\<close>, \<open>_token\<close>,
  \<open>_orchestrator\<close>, \<open>_farmController\<close>, \<open>_pollDataInterval\<close>), and talks to the
  browser window (interval timers, the injected wallet object). An optional field that
  is \<open>undefined\<close> is \<open>None\<close>. The leading underscore of the private members and
  methods is dropped, since an Isabelle name cannot start with one.
\<close>

record TokenData =
  name :: "string option"
  symbol :: "string option"
  decimals :: "string option"

text \<open>
  A value caught by \<open>catch (error)\<close>: the handler reads \<open>error.code\<close>,
  \<open>error.data.message\<close> (when \<open>error.data\<close> is there) and \<open>error.message\<close>.
\<close>

record ErrorType =
  code :: "int option"
  data :: "string option"
  message :: string

record DappState =
  tokenData :: "TokenData option"
  selectedAddress :: "string option"
  balance :: "int option"
  txBeingSent :: "string option"
  transactionError :: "ErrorType option"
  networkError :: "string option"
  isDarkTheme :: "bool option"
  isProcessing :: "bool option"

text \<open>The handles built by \<open>_initializeEthers\<close>, one per entry of the address table.\<close>

datatype Web3Provider = Web3Provider

datatype Contract = UFragments | Orchestrator | FarmController

text \<open>
  What the component does to the outside world, in the order it does it: reads and calls
  on the token contract, and console output.
\<close>

datatype effect =
    CallName
  | CallSymbol
  | CallBalanceOf "string option"
  | CallTransfer string string
  | CallWait string
  | ConsoleLog
  | ConsoleError ErrorType

text \<open>
  The component together with the part of the window it uses. \<open>intervals\<close> are the
  interval timers of the window that are active, each with its handle and its period in
  milliseconds (the callback of every timer this program sets is \<open>_updateBalance\<close>);
  \<open>nextInterval\<close> is the handle \<open>window.setInterval\<close> hands out next;
  \<open>networkVersion\<close> is \<open>window.ethereum.networkVersion\<close>; the two listener counts say
  how many handlers \<open>window.ethereum.on\<close> has registered for each notification (they
  are never removed); \<open>trace\<close> collects the effects.
\<close>

record Dapp =
  state :: DappState
  provider :: "Web3Provider option"
  token :: "Contract option"
  orchestrator :: "Contract option"
  farmController :: "Contract option"
  pollDataInterval :: "nat option"
  intervals :: "(nat \<times> nat) list"
  nextInterval :: nat
  networkVersion :: "string option"
  accountsChangedListeners :: nat
  networkChangedListeners :: nat
  trace :: "effect list"

definition HARDHAT_NETWORK_ID :: string where
  "HARDHAT_NETWORK_ID = ''31337''"

definition ERROR_CODE_TX_REJECTED_BY_USER :: int where
  "ERROR_CODE_TX_REJECTED_BY_USER = 4001"

definition initialState :: DappState where
  "initialState =
     \<lparr>tokenData = None, selectedAddress = None, balance = None, txBeingSent = None,
      transactionError = None, networkError = None, isDarkTheme = None,
      isProcessing = None\<rparr>"

text \<open>
  The component as its constructor leaves it, in a window with no timer and no listener
  yet, whose wallet is on network \<open>nv\<close>.
\<close>

definition constructor :: "string option \<Rightarrow> Dapp" where
  "constructor nv =
     \<lparr>state = initialState, provider = None, token = None, orchestrator = None,
      farmController = None, pollDataInterval = None, intervals = [], nextInterval = 1,
      networkVersion = nv, accountsChangedListeners = 0, networkChangedListeners = 0,
      trace = []\<rparr>"

text \<open>\<open>new Error(msg)\<close>: a message, no code, no data.\<close>

definition Error :: "string \<Rightarrow> ErrorType" where
  "Error msg = \<lparr>code = None, data = None, message = msg\<rparr>"

section \<open>Answers of the outside world\<close>

text \<open>
  Every \<open>await\<close> of the source waits for an answer that the program does not compute.
  The model takes these answers as arguments: a promise that resolves with \<open>v\<close> is
  \<open>Inr v\<close>, one that rejects with \<open>e\<close> is \<open>Inl e\<close>. An asynchronous method is run
  from its call to its end with the answers it is given, so a method that is never
  answered has no run in the model, and the steps of two methods do not interleave.
  \<open>setState\<close> merges its argument into the state at once.

  \<open>token_reads\<close> are the answers of the read functions of the token contract.
  \<open>decimalsR\<close> is what \<open>decimals()\<close> would answer.
\<close>

record token_reads =
  nameR :: "ErrorType + string"
  symbolR :: "ErrorType + string"
  decimalsR :: "ErrorType + string"
  balanceOfR :: "ErrorType + int"

text \<open>
  The answers to one transfer: the transaction hash of \<open>transfer(to, amount)\<close>, the
  \<open>status\<close> of the receipt of \<open>tx.wait()\<close>, and the balance read that follows.
\<close>

record transfer_answers =
  transferR :: "ErrorType + string"
  waitR :: "ErrorType + int option"
  balanceR :: "ErrorType + int"

section \<open>Methods of the component\<close>

definition setState :: "(DappState \<Rightarrow> DappState) \<Rightarrow> Dapp \<Rightarrow> Dapp" where
  "setState f d = d\<lparr>state := f (state d)\<rparr>"

definition emit :: "effect \<Rightarrow> Dapp \<Rightarrow> Dapp" where
  "emit e d = d\<lparr>trace := trace d @ [e]\<rparr>"

text \<open>\<open>window.setInterval\<close> and \<open>window.clearInterval\<close>; clearing \<open>undefined\<close> does nothing.\<close>

definition setInterval :: "nat \<Rightarrow> Dapp \<Rightarrow> nat \<times> Dapp" where
  "setInterval period d =
     (nextInterval d,
      d\<lparr>intervals := intervals d @ [(nextInterval d, period)],
        nextInterval := Suc (nextInterval d)\<rparr>)"

definition clearInterval :: "nat option \<Rightarrow> Dapp \<Rightarrow> Dapp" where
  "clearInterval h d =
     (case h of
        None \<Rightarrow> d
      | Some i \<Rightarrow> d\<lparr>intervals := filter (\<lambda>t. fst t \<noteq> i) (intervals d)\<rparr>)"

definition dismissTransactionError :: "Dapp \<Rightarrow> Dapp" where
  "dismissTransactionError d = setState (\<lambda>s. s\<lparr>transactionError := None\<rparr>) d"

definition dismissNetworkError :: "Dapp \<Rightarrow> Dapp" where
  "dismissNetworkError d = setState (\<lambda>s. s\<lparr>networkError := None\<rparr>) d"

definition resetState :: "Dapp \<Rightarrow> Dapp" where
  "resetState d = setState (\<lambda>s. initialState) d"

definition toggleTheme :: "bool \<Rightarrow> Dapp \<Rightarrow> Dapp" where
  "toggleTheme isDark d = setState (\<lambda>s. s\<lparr>isDarkTheme := Some isDark\<rparr>) d"

definition setIsProcessing :: "bool \<Rightarrow> Dapp \<Rightarrow> Dapp" where
  "setIsProcessing p d = setState (\<lambda>s. s\<lparr>isProcessing := Some p\<rparr>) d"

definition getRpcErrorMessage :: "ErrorType \<Rightarrow> string" where
  "getRpcErrorMessage error = (case data error of Some m \<Rightarrow> m | None \<Rightarrow> message error)"

definition checkNetwork :: "Dapp \<Rightarrow> bool \<times> Dapp" where
  "checkNetwork d =
     (if networkVersion d = Some HARDHAT_NETWORK_ID then (True, d)
      else (False,
            setState (\<lambda>s. s\<lparr>networkError := Some ''Please connect Metamask to Localhost:8545''\<rparr>) d))"

text \<open>
  The three constructors of \<open>_initializeEthers\<close> build handles from the static address
  table and ABI files; the method has no \<open>await\<close>, so it has run to its end when
  \<open>_initialize\<close> goes on.
\<close>

definition initializeEthers :: "Dapp \<Rightarrow> Dapp" where
  "initializeEthers d =
     d\<lparr>provider := Some Web3Provider, token := Some UFragments,
       orchestrator := Some Orchestrator, farmController := Some FarmController\<rparr>"

text \<open>
  An asynchronous method returns the component it leaves and, when its promise rejects,
  the error it rejects with.
\<close>

definition updateBalance :: "ErrorType + int \<Rightarrow> Dapp \<Rightarrow> ErrorType option \<times> Dapp" where
  "updateBalance r d =
     (case token d of
        Some t \<Rightarrow>
          (let d1 = emit (CallBalanceOf (selectedAddress (state d))) d in
           case r of
             Inl e \<Rightarrow> (Some e, d1)
           | Inr b \<Rightarrow> (None, setState (\<lambda>s. s\<lparr>balance := Some b\<rparr>) d1))
      | None \<Rightarrow> (None, setState (\<lambda>s. s\<lparr>balance := None\<rparr>) d))"

definition getTokenData :: "token_reads \<Rightarrow> Dapp \<Rightarrow> ErrorType option \<times> Dapp" where
  "getTokenData r d =
     (case token d of
        Some t \<Rightarrow>
          (let d1 = emit CallName d in
           case nameR r of
             Inl e \<Rightarrow> (Some e, d1)
           | Inr n \<Rightarrow>
               (let d2 = emit CallSymbol d1 in
                case symbolR r of
                  Inl e \<Rightarrow> (Some e, d2)
                | Inr sy \<Rightarrow>
                    (None,
                     setState
                       (\<lambda>s. s\<lparr>tokenData :=
                               Some \<lparr>name = Some n, symbol = Some sy, decimals = Some ''9''\<rparr>\<rparr>)
                       (emit ConsoleLog d2))))
      | None \<Rightarrow>
          (None,
           setState
             (\<lambda>s. s\<lparr>tokenData := Some \<lparr>name = None, symbol = None, decimals = None\<rparr>\<rparr>) d))"

text \<open>
  \<open>_startPollingData\<close> and \<open>_initialize\<close> call the asynchronous methods without
  \<open>await\<close>: a rejection of theirs is dropped.
\<close>

definition startPollingData :: "ErrorType + int \<Rightarrow> Dapp \<Rightarrow> Dapp" where
  "startPollingData r d =
     (let (h, d1) = setInterval 1000 d;
          d2 = d1\<lparr>pollDataInterval := Some h\<rparr>
      in snd (updateBalance r d2))"

definition stopPollingData :: "Dapp \<Rightarrow> Dapp" where
  "stopPollingData d = (clearInterval (pollDataInterval d) d)\<lparr>pollDataInterval := None\<rparr>"

definition initialize :: "string option \<Rightarrow> token_reads \<Rightarrow> Dapp \<Rightarrow> Dapp" where
  "initialize userAddress r d =
     (let d1 = setState (\<lambda>s. s\<lparr>selectedAddress := userAddress\<rparr>) d;
          d2 = initializeEthers d1;
          d3 = snd (getTokenData r d2)
      in startPollingData (balanceOfR r) d3)"

definition componentWillUnmount :: "Dapp \<Rightarrow> Dapp" where
  "componentWillUnmount d = stopPollingData d"

text \<open>
  The two handlers that \<open>_connectWallet\<close> registers. Their argument is an array, of
  which they take the first element (\<open>undefined\<close> when the array is empty).
\<close>

definition first :: "'a list \<Rightarrow> 'a option" where
  "first xs = (case xs of [] \<Rightarrow> None | x # _ \<Rightarrow> Some x)"

definition on_accountsChanged :: "string list \<Rightarrow> token_reads \<Rightarrow> Dapp \<Rightarrow> Dapp" where
  "on_accountsChanged accounts r d =
     (let d1 = stopPollingData d in
      case first accounts of
        None \<Rightarrow> resetState d1
      | Some newAddress \<Rightarrow> initialize (Some newAddress) r d1)"

definition on_networkChanged :: "Dapp \<Rightarrow> Dapp" where
  "on_networkChanged d = resetState (stopPollingData d)"

text \<open>
  \<open>_connectWallet\<close>: \<open>enabled\<close> is the answer of \<open>window.ethereum.enable()\<close>. When
  that promise rejects, the method ends there, rejecting with the same error.
\<close>

definition connectWallet ::
    "ErrorType + string list \<Rightarrow> token_reads \<Rightarrow> Dapp \<Rightarrow> ErrorType option \<times> Dapp" where
  "connectWallet enabled r d =
     (case enabled of
        Inl e \<Rightarrow> (Some e, d)
      | Inr accounts \<Rightarrow>
          (let (ok, d1) = checkNetwork d in
           if \<not> ok then (None, d1)
           else
             (let d2 = initialize (first accounts) r d1 in
              (None,
               d2\<lparr>accountsChangedListeners := Suc (accountsChangedListeners d2),
                  networkChangedListeners := Suc (networkChangedListeners d2)\<rparr>))))"

subsection \<open>Transfer submission\<close>

text \<open>
  \<open>_transferTokens\<close> is one \<open>try\<close>/\<open>catch\<close>/\<open>finally\<close> statement. The \<open>try\<close> block
  returns the value it throws, if it throws.
\<close>

definition transferTokens_try ::
    "string \<Rightarrow> string \<Rightarrow> transfer_answers \<Rightarrow> Dapp \<Rightarrow> ErrorType option \<times> Dapp" where
  "transferTokens_try to amount a d =
     (let d1 = dismissTransactionError d in
      case token d1 of
        None \<Rightarrow> (Some (Error ''Token contract not initialized''), d1)
      | Some t \<Rightarrow>
          (let d2 = emit (CallTransfer to amount) d1 in
           case transferR a of
             Inl e \<Rightarrow> (Some e, d2)
           | Inr hash \<Rightarrow>
               (let d3 = emit (CallWait hash) (setState (\<lambda>s. s\<lparr>txBeingSent := Some hash\<rparr>) d2) in
                case waitR a of
                  Inl e \<Rightarrow> (Some e, d3)
                | Inr status \<Rightarrow>
                    if status = Some 0 then (Some (Error ''Transaction failed''), d3)
                    else updateBalance (balanceR a) d3)))"

definition transferTokens_catch :: "ErrorType \<Rightarrow> Dapp \<Rightarrow> Dapp" where
  "transferTokens_catch error d =
     (if code error = Some ERROR_CODE_TX_REJECTED_BY_USER then d
      else setState (\<lambda>s. s\<lparr>transactionError := Some error\<rparr>) (emit (ConsoleError error) d))"

definition transferTokens_finally :: "Dapp \<Rightarrow> Dapp" where
  "transferTokens_finally d = setState (\<lambda>s. s\<lparr>txBeingSent := None\<rparr>) d"

definition transferTokens :: "string \<Rightarrow> string \<Rightarrow> transfer_answers \<Rightarrow> Dapp \<Rightarrow> Dapp" where
  "transferTokens to amount a d =
     (case transferTokens_try to amount a d of
        (None, d1) \<Rightarrow> transferTokens_finally d1
      | (Some error, d1) \<Rightarrow> transferTokens_finally (transferTokens_catch error d1))"

section \<open>Events\<close>

text \<open>
  What can happen to the component, each with the answers it needs: a click on Connect
  (which calls \<open>_connectWallet\<close>), the two notifications of the wallet, an interval
  timer of the window firing, a submission through \<open>transferFunc\<close>, the two dismiss
  callbacks, the theme and processing setters, and React unmounting the component.
  A notification runs every handler registered for it, in turn; a timer fires only
  while it is active.
\<close>

datatype event =
    ClickConnect "ErrorType + string list" token_reads
  | AccountsChanged "string list" token_reads
  | NetworkChanged "string option"
  | IntervalFires nat "ErrorType + int"
  | SubmitTransfer string string transfer_answers
  | DismissTransactionError
  | DismissNetworkError
  | ToggleTheme bool
  | SetIsProcessing bool
  | Unmount

fun step :: "event \<Rightarrow> Dapp \<Rightarrow> Dapp" where
  "step (ClickConnect enabled r) d = snd (connectWallet enabled r d)"
| "step (AccountsChanged accounts r) d =
     (on_accountsChanged accounts r ^^ accountsChangedListeners d) d"
| "step (NetworkChanged nv) d =
     (on_networkChanged ^^ networkChangedListeners d) (d\<lparr>networkVersion := nv\<rparr>)"
| "step (IntervalFires h r) d =
     (if h \<in> set (map fst (intervals d)) then snd (updateBalance r d) else d)"
| "step (SubmitTransfer recipient amt a) d = transferTokens recipient amt a d"
| "step DismissTransactionError d = dismissTransactionError d"
| "step DismissNetworkError d = dismissNetworkError d"
| "step (ToggleTheme isDark) d = toggleTheme isDark d"
| "step (SetIsProcessing p) d = setIsProcessing p d"
| "step Unmount d = componentWillUnmount d"


fun is_balance_read :: "effect \<Rightarrow> bool" where
  "is_balance_read (CallBalanceOf a) = True"
| "is_balance_read e = False"


fun is_console_error :: "effect \<Rightarrow> bool" where
  "is_console_error (ConsoleError e) = True"
| "is_console_error e = False"

section \<open>The transfer form\<close>

text \<open>
  The form of Transfer.tsx keeps \<open>transferData\<close>, whose \<open>amount\<close> is declared as
  \<open>number | string\<close> and optional, and whose \<open>to\<close> is an optional string. A number is
  modelled by an integer (the form itself stores only strings: the initial \<open>""\<close>, the
  value of an input element, and \<open>balance?.toString()\<close>).
\<close>

datatype amount_value = AmountUndefined | AmountNumber int | AmountString string

record TransferData =
  amount :: amount_value
  to :: "string option"

text \<open>\<open>!amount\<close>: undefined, the number 0 and the empty string are falsy.\<close>

fun falsy :: "amount_value \<Rightarrow> bool" where
  "falsy AmountUndefined = True"
| "falsy (AmountNumber n) = (n = 0)"
| "falsy (AmountString s) = (s = [])"

fun digits :: "nat \<Rightarrow> string" where
  "digits n =
     (if n < 10 then [''0123456789'' ! n]
      else digits (n div 10) @ [''0123456789'' ! (n mod 10)])"

declare digits.simps [simp del]

text \<open>\<open>amount.toString()\<close>; on \<open>undefined\<close> it raises a TypeError.\<close>

fun toString :: "amount_value \<Rightarrow> string option" where
  "toString AmountUndefined = None"
| "toString (AmountNumber n) =
     Some (if n < 0 then CHR ''-'' # digits (nat (- n)) else digits (nat n))"
| "toString (AmountString s) = Some s"

text \<open>
  What a submission of the form does: it shows an alert, calls \<open>transferTokens\<close>, or
  ends in an uncaught TypeError.
\<close>

datatype form_effect = Alert string | TransferTokensCall string string | TypeError

definition onSubmit :: "TransferData \<Rightarrow> form_effect" where
  "onSubmit transferData =
     (if falsy (amount transferData) \<or> amount transferData = AmountString ''0''
      then Alert ''Amount is invalid!''
      else case to transferData of
             None \<Rightarrow> Alert ''Address is invalid!''
           | Some t \<Rightarrow>
               if t = [] then Alert ''Address is invalid!''
               else (case toString (amount transferData) of
                       None \<Rightarrow> TypeError
                     | Some a \<Rightarrow> TransferTokensCall t a))"

section \<open>Sample runs\<close>

text \<open>
  A token contract named "Test" with symbol "TST" whose \<open>decimals()\<close> answers "18",
  a component connected to it on the expected network with account 0xA, and the same
  component after a transfer whose receipt reports status 0.
\<close>

abbreviation reads_Test :: token_reads where
  "reads_Test \<equiv>
     \<lparr>nameR = Inr ''Test'', symbolR = Inr ''TST'', decimalsR = Inr ''18'',
      balanceOfR = Inr 100\<rparr>"

abbreviation connected :: Dapp where
  "connected \<equiv> step (ClickConnect (Inr [''0xA'']) reads_Test) (constructor (Some ''31337''))"

abbreviation mined_with_failure :: transfer_answers where
  "mined_with_failure \<equiv> \<lparr>transferR = Inr ''0xhash'', waitR = Inr (Some 0), balanceR = Inr 95\<rparr>"

abbreviation user_rejected :: ErrorType where
  "user_rejected \<equiv> \<lparr>code = Some 4001, data = None, message = ''User denied transaction signature''\<rparr>"

abbreviation declined_to_sign :: transfer_answers where
  "declined_to_sign \<equiv> \<lparr>transferR = Inl user_rejected, waitR = Inr (Some 1), balanceR = Inr 95\<rparr>"

abbreviation failed_transfer :: Dapp where
  "failed_transfer \<equiv> step (SubmitTransfer ''0xB'' ''5'' mined_with_failure) connected"


abbreviation connected_twice :: Dapp where
  "connected_twice \<equiv> step (ClickConnect (Inr [''0xA'']) reads_Test) connected"

section \<open>What each method leaves unchanged\<close>

lemmas run_defs =
  connectWallet_def checkNetwork_def HARDHAT_NETWORK_ID_def initialize_def initializeEthers_def
  getTokenData_def startPollingData_def stopPollingData_def setInterval_def clearInterval_def
  updateBalance_def setState_def emit_def first_def constructor_def initialState_def
  on_accountsChanged_def on_networkChanged_def resetState_def componentWillUnmount_def
  transferTokens_def transferTokens_try_def transferTokens_catch_def transferTokens_finally_def
  dismissTransactionError_def dismissNetworkError_def ERROR_CODE_TX_REJECTED_BY_USER_def
  Error_def getRpcErrorMessage_def Let_def

lemma funpow_keeps: "(\<And>x. g (f x) = g x) \<Longrightarrow> g ((f ^^ n) x) = g x"
  by (induction n) simp_all

lemma state_setState [simp]: "state (setState f d) = f (state d)"
  by (simp add: setState_def)

lemma state_emit [simp]: "state (emit e d) = state d"
  by (simp add: emit_def)

lemma trace_setState [simp]: "trace (setState f d) = trace d"
  by (simp add: setState_def)

lemma trace_emit [simp]: "trace (emit e d) = trace d @ [e]"
  by (simp add: emit_def)

lemma token_setState [simp]: "token (setState f d) = token d"
  by (simp add: setState_def)

lemma token_emit [simp]: "token (emit e d) = token d"
  by (simp add: emit_def)

lemma updateBalance_keeps:
  "tokenData (state (snd (updateBalance r d))) = tokenData (state d)"
  "transactionError (state (snd (updateBalance r d))) = transactionError (state d)"
  "networkError (state (snd (updateBalance r d))) = networkError (state d)"
  by (simp_all add: updateBalance_def Let_def split: option.split sum.split)

lemma stopPollingData_state [simp]: "state (stopPollingData d) = state d"
  by (simp add: stopPollingData_def clearInterval_def split: option.split)

lemma stopPollingData_handle [simp]: "pollDataInterval (stopPollingData d) = None"
  by (simp add: stopPollingData_def)

lemma stopPollingData_nextInterval [simp]: "nextInterval (stopPollingData d) = nextInterval d"
  by (simp add: stopPollingData_def clearInterval_def split: option.split)

lemma stopPollingData_clears:
  "pollDataInterval d = Some h \<Longrightarrow> h \<notin> set (map fst (intervals (stopPollingData d)))"
  by (auto simp: stopPollingData_def clearInterval_def)

lemma resetState_window [simp]:
  "intervals (resetState d) = intervals d"
  "pollDataInterval (resetState d) = pollDataInterval d"
  by (simp_all add: resetState_def setState_def)

lemma initialize_keeps:
  "transactionError (state (initialize a r d)) = transactionError (state d)"
  "networkError (state (initialize a r d)) = networkError (state d)"
  by (simp_all add: initialize_def startPollingData_def setInterval_def initializeEthers_def
      updateBalance_def getTokenData_def setState_def emit_def Let_def
      split: option.split sum.split)

lemma initialize_window:
  "intervals (initialize a r d) = intervals d @ [(nextInterval d, 1000)]"
  "pollDataInterval (initialize a r d) = Some (nextInterval d)"
  by (simp_all add: initialize_def startPollingData_def setInterval_def updateBalance_def
      getTokenData_def initializeEthers_def setState_def emit_def Let_def
      split: sum.split)

lemma try_keeps:
  "tokenData (state (snd (transferTokens_try recipient amt a d))) = tokenData (state d)"
  "networkError (state (snd (transferTokens_try recipient amt a d))) = networkError (state d)"
  "transactionError (state (snd (transferTokens_try recipient amt a d))) = None"
  by (simp_all add: transferTokens_try_def dismissTransactionError_def updateBalance_def Let_def
      split: option.split sum.split)

lemma try_console:
  "filter is_console_error (trace (snd (transferTokens_try recipient amt a d)))
     = filter is_console_error (trace d)"
  by (simp add: transferTokens_try_def dismissTransactionError_def updateBalance_def Let_def
      split: option.split sum.split)

lemma transferTokens_unfold:
  "transferTokens recipient amt a d =
     transferTokens_finally
       (case fst (transferTokens_try recipient amt a d) of
          None \<Rightarrow> snd (transferTokens_try recipient amt a d)
        | Some error \<Rightarrow> transferTokens_catch error (snd (transferTokens_try recipient amt a d)))"
  by (simp add: transferTokens_def split: prod.split option.split)

lemma transferTokens_keeps:
  "tokenData (state (transferTokens recipient amt a d)) = tokenData (state d)"
  "networkError (state (transferTokens recipient amt a d)) = networkError (state d)"
  by (simp_all add: transferTokens_unfold transferTokens_finally_def transferTokens_catch_def
      try_keeps split: option.split)

lemma connectWallet_keeps:
  "transactionError (state (snd (connectWallet enabled r d))) = transactionError (state d)"
  by (simp add: connectWallet_def checkNetwork_def initialize_keeps Let_def split: sum.split)

lemma connectWallet_networkError:
  "networkError (state (snd (connectWallet enabled r d))) = None \<Longrightarrow> networkError (state d) = None"
  by (simp add: connectWallet_def checkNetwork_def initialize_keeps Let_def
      split: sum.splits if_splits)

lemma on_accountsChanged_keeps:
  "transactionError (state (on_accountsChanged (x # xs) r d)) = transactionError (state d)"
  "networkError (state (on_accountsChanged (x # xs) r d)) = networkError (state d)"
  by (simp_all add: on_accountsChanged_def first_def initialize_keeps)

lemma getTokenData_window:
  "token (snd (getTokenData r d)) = token d"
  "intervals (snd (getTokenData r d)) = intervals d"
  "nextInterval (snd (getTokenData r d)) = nextInterval d"
  "selectedAddress (state (snd (getTokenData r d))) = selectedAddress (state d)"
  "filter is_balance_read (trace (snd (getTokenData r d))) = filter is_balance_read (trace d)"
  by (simp_all add: getTokenData_def setState_def emit_def Let_def split: option.split sum.split)

lemma updateBalance_reads:
  "token d \<noteq> None \<Longrightarrow>
     trace (snd (updateBalance b d)) = trace d @ [CallBalanceOf (selectedAddress (state d))]"
  by (auto simp: updateBalance_def Let_def split: sum.split)

lemma updateBalance_window:
  "intervals (snd (updateBalance b d)) = intervals d"
  "token (snd (updateBalance b d)) = token d"
  "selectedAddress (state (snd (updateBalance b d))) = selectedAddress (state d)"
  by (simp_all add: updateBalance_def setState_def emit_def Let_def split: option.split sum.split)

lemma startPollingData_window:
  "intervals (startPollingData b d) = intervals d @ [(nextInterval d, 1000)]"
  "pollDataInterval (startPollingData b d) = Some (nextInterval d)"
  "token (startPollingData b d) = token d"
  "selectedAddress (state (startPollingData b d)) = selectedAddress (state d)"
  by (simp_all add: startPollingData_def setInterval_def updateBalance_def setState_def emit_def
      Let_def split: option.split sum.split)

lemma startPollingData_reads:
  "token d \<noteq> None \<Longrightarrow>
     trace (startPollingData b d) = trace d @ [CallBalanceOf (selectedAddress (state d))]"
  by (simp add: startPollingData_def setInterval_def updateBalance_reads)

lemma initialize_session:
  "token (initialize a r d) = Some UFragments"
  "selectedAddress (state (initialize a r d)) = a"
  by (simp_all add: initialize_def startPollingData_window getTokenData_window
      initializeEthers_def setState_def)

lemma initialize_reads:
  "filter is_balance_read (trace (initialize a r d))
     = filter is_balance_read (trace d) @ [CallBalanceOf a]"
  by (simp add: initialize_def startPollingData_reads getTokenData_window
      initializeEthers_def setState_def)





section \<open>Properties\<close>

subsection \<open>Token data\<close>




subsection \<open>Transfer submission\<close>

text \<open>
  C2. Every run of the transfer submission ends with the pending-transaction identifier
  undefined, whatever the answers of the wallet and the contract were and whatever the
  component was before: the \<open>finally\<close> block runs on every path.
\<close>

theorem transferTokens_clears_txBeingSent:
  "txBeingSent (state (transferTokens recipient amt a d)) = None"
  by (simp add: transferTokens_unfold transferTokens_finally_def)

text \<open>
  C5. A transfer that was sent and whose receipt reports status 0 ends with the error
  "Transaction failed" stored as transaction error (so the error shown is that message)
  and with the pending-transaction identifier undefined.
\<close>

theorem failed_receipt_is_stored:
  "token d = Some t \<Longrightarrow> transferR a = Inr hash \<Longrightarrow> waitR a = Inr (Some 0) \<Longrightarrow>
     transactionError (state (transferTokens recipient amt a d))
       = Some (Error ''Transaction failed'')
   \<and> transactionError (state (transferTokens recipient amt a d)) \<noteq> None
   \<and> map_option getRpcErrorMessage (transactionError (state (transferTokens recipient amt a d)))
       = Some ''Transaction failed''
   \<and> txBeingSent (state (transferTokens recipient amt a d)) = None"
  by (simp add: transferTokens_def transferTokens_try_def transferTokens_catch_def
      transferTokens_finally_def dismissTransactionError_def Error_def getRpcErrorMessage_def)

theorem failed_receipt_is_stored_witness:
  "token connected = Some UFragments
   \<and> transferR mined_with_failure = Inr ''0xhash''
   \<and> waitR mined_with_failure = Inr (Some 0)
   \<and> transactionError (state (transferTokens ''0xB'' ''5'' mined_with_failure connected))
       = Some (Error ''Transaction failed'')
   \<and> txBeingSent (state (transferTokens ''0xB'' ''5'' mined_with_failure connected)) = None"
proof -
  have sent: "token connected = Some UFragments"
    by (simp add: run_defs)
  show ?thesis
    using sent failed_receipt_is_stored [OF sent, of mined_with_failure "''0xhash''" "''0xB''" "''5''"]
    by simp
qed

text \<open>
  C6. A transfer attempt whose \<open>try\<close> block fails with an error of code 4001 stores no
  transaction error, writes nothing to the error console, leaves the network error as
  it was, and ends with the pending-transaction identifier undefined: the \<open>catch\<close>
  block does nothing with such an error. (An error left by an earlier attempt has been
  cleared when the attempt started, as for every attempt.)
\<close>

theorem user_rejection_is_silent:
  "fst (transferTokens_try recipient amt a d) = Some e \<Longrightarrow> code e = Some 4001 \<Longrightarrow>
     transactionError (state (transferTokens recipient amt a d)) = None
   \<and> txBeingSent (state (transferTokens recipient amt a d)) = None
   \<and> networkError (state (transferTokens recipient amt a d)) = networkError (state d)
   \<and> filter is_console_error (trace (transferTokens recipient amt a d))
       = filter is_console_error (trace d)
   \<and> transferTokens_catch e d' = d'"
proof -
  assume thrown: "fst (transferTokens_try recipient amt a d) = Some e"
    and rejected: "code e = Some 4001"
  let ?d1 = "snd (transferTokens_try recipient amt a d)"
  have run: "transferTokens recipient amt a d = transferTokens_finally ?d1"
    using thrown rejected
    by (simp add: transferTokens_unfold transferTokens_catch_def
        ERROR_CODE_TX_REJECTED_BY_USER_def)
  have noop: "transferTokens_catch e d' = d'"
    using rejected
    by (simp add: transferTokens_catch_def ERROR_CODE_TX_REJECTED_BY_USER_def)
  show ?thesis
    using try_keeps [of recipient amt a d] try_console [of recipient amt a d] noop
    by (simp add: run transferTokens_finally_def)
qed

theorem user_rejection_is_silent_witness:
  "fst (transferTokens_try ''0xB'' ''5'' declined_to_sign failed_transfer) = Some user_rejected
   \<and> code user_rejected = Some 4001
   \<and> transactionError (state (transferTokens ''0xB'' ''5'' declined_to_sign failed_transfer)) = None
   \<and> txBeingSent (state (transferTokens ''0xB'' ''5'' declined_to_sign failed_transfer)) = None"
proof -
  have thrown:
    "fst (transferTokens_try ''0xB'' ''5'' declined_to_sign failed_transfer) = Some user_rejected"
    by (simp add: run_defs)
  have rejected: "code user_rejected = Some 4001"
    by simp
  show ?thesis
    using thrown user_rejection_is_silent [OF thrown rejected]
    by simp
qed

subsection \<open>Errors kept in the state\<close>

text \<open>
  C3, as the code has it. Each of the two error fields holds one error or none. A
  transfer that fails with an error other than code 4001 stores that error in place of
  whatever was there, and a connect on a wrong network stores the network message in
  place of whatever was there. A transaction error that is set becomes undefined only
  through its dismissal, through a transfer attempt (every attempt clears it when it
  starts, whatever its outcome), or through the state reset of an account removal or a
  network change. A network error that is set becomes undefined only through its
  dismissal or through that state reset; a connect on the expected network leaves it as
  it was.
\<close>

theorem errors_cleared_only_by:
  "(fst (transferTokens_try recipient amt a d) = Some e \<and> code e \<noteq> Some 4001 \<longrightarrow>
      transactionError (state (transferTokens recipient amt a d)) = Some e)
   \<and> (fst (transferTokens_try recipient amt a d) = None \<longrightarrow>
      transactionError (state (transferTokens recipient amt a d)) = None)
   \<and> (networkVersion d \<noteq> Some ''31337'' \<longrightarrow>
      networkError (state (snd (connectWallet (Inr accounts) r d)))
        = Some ''Please connect Metamask to Localhost:8545'')
   \<and> (transactionError (state d) \<noteq> None \<and> transactionError (state (step ev d)) = None \<longrightarrow>
      ev = DismissTransactionError \<or> (\<exists>x y z. ev = SubmitTransfer x y z)
      \<or> (\<exists>x. ev = AccountsChanged [] x) \<or> (\<exists>x. ev = NetworkChanged x))
   \<and> (networkError (state d) \<noteq> None \<and> networkError (state (step ev d)) = None \<longrightarrow>
      ev = DismissNetworkError
      \<or> (\<exists>x. ev = AccountsChanged [] x) \<or> (\<exists>x. ev = NetworkChanged x))
   \<and> (networkVersion d = Some ''31337'' \<longrightarrow>
      networkError (state (step (ClickConnect (Inr accounts) r) d)) = networkError (state d))"
proof (intro conjI impI)
  assume "fst (transferTokens_try recipient amt a d) = Some e \<and> code e \<noteq> Some 4001"
  then show "transactionError (state (transferTokens recipient amt a d)) = Some e"
    by (simp add: transferTokens_unfold transferTokens_finally_def transferTokens_catch_def
        ERROR_CODE_TX_REJECTED_BY_USER_def)
next
  assume "fst (transferTokens_try recipient amt a d) = None"
  then show "transactionError (state (transferTokens recipient amt a d)) = None"
    by (simp add: transferTokens_unfold transferTokens_finally_def try_keeps)
next
  assume "networkVersion d \<noteq> Some ''31337''"
  then show "networkError (state (snd (connectWallet (Inr accounts) r d)))
      = Some ''Please connect Metamask to Localhost:8545''"
    by (simp add: connectWallet_def checkNetwork_def HARDHAT_NETWORK_ID_def)
next
  assume h: "transactionError (state d) \<noteq> None \<and> transactionError (state (step ev d)) = None"
  show "ev = DismissTransactionError \<or> (\<exists>x y z. ev = SubmitTransfer x y z)
      \<or> (\<exists>x. ev = AccountsChanged [] x) \<or> (\<exists>x. ev = NetworkChanged x)"
  proof (cases ev)
    case (ClickConnect enabled r')
    with h show ?thesis by (auto simp: connectWallet_keeps)
  next
    case (AccountsChanged accs r')
    show ?thesis
    proof (cases accs)
      case Nil
      with AccountsChanged show ?thesis by simp
    next
      case (Cons x xs)
      have "transactionError (state ((on_accountsChanged (x # xs) r' ^^ n) d))
          = transactionError (state d)" for n
        by (rule funpow_keeps) (rule on_accountsChanged_keeps)
      with h AccountsChanged Cons show ?thesis by auto
    qed
  next
    case (IntervalFires h' b)
    with h show ?thesis by (auto simp: updateBalance_keeps split: if_splits)
  qed (use h in \<open>auto simp: dismissNetworkError_def toggleTheme_def setIsProcessing_def
        componentWillUnmount_def\<close>)
next
  assume h: "networkError (state d) \<noteq> None \<and> networkError (state (step ev d)) = None"
  show "ev = DismissNetworkError
      \<or> (\<exists>x. ev = AccountsChanged [] x) \<or> (\<exists>x. ev = NetworkChanged x)"
  proof (cases ev)
    case (ClickConnect enabled r')
    with h show ?thesis using connectWallet_networkError [of enabled r' d] by auto
  next
    case (AccountsChanged accs r')
    show ?thesis
    proof (cases accs)
      case Nil
      with AccountsChanged show ?thesis by simp
    next
      case (Cons x xs)
      have "networkError (state ((on_accountsChanged (x # xs) r' ^^ n) d))
          = networkError (state d)" for n
        by (rule funpow_keeps) (rule on_accountsChanged_keeps)
      with h AccountsChanged Cons show ?thesis by auto
    qed
  next
    case (IntervalFires h' b)
    with h show ?thesis by (auto simp: updateBalance_keeps split: if_splits)
  qed (use h in \<open>auto simp: transferTokens_keeps dismissTransactionError_def toggleTheme_def
        setIsProcessing_def componentWillUnmount_def\<close>)
next
  assume "networkVersion d = Some ''31337''"
  then show "networkError (state (step (ClickConnect (Inr accounts) r) d)) = networkError (state d)"
    by (simp add: connectWallet_def checkNetwork_def HARDHAT_NETWORK_ID_def initialize_keeps
        Let_def)
qed

theorem errors_cleared_only_by_witness:
  "fst (transferTokens_try ''0xB'' ''5'' mined_with_failure connected)
       = Some (Error ''Transaction failed'')
   \<and> code (Error ''Transaction failed'') \<noteq> Some 4001
   \<and> transactionError (state failed_transfer) = Some (Error ''Transaction failed'')
   \<and> transactionError (state (step DismissTransactionError failed_transfer)) = None
   \<and> networkVersion connected = Some ''31337''
   \<and> networkError (state (step (ClickConnect (Inr [''0xA'']) reads_Test) connected))
       = networkError (state connected)"
  using errors_cleared_only_by [of "''0xB''" "''5''" mined_with_failure connected
      "Error ''Transaction failed''" "[''0xA'']" reads_Test DismissTransactionError]
    errors_cleared_only_by [of "''0xB''" "''5''" mined_with_failure failed_transfer
      "Error ''Transaction failed''" "[''0xA'']" reads_Test DismissTransactionError]
  by (simp add: run_defs)

text \<open>
  C3 as stated fails: the transaction error left by a failed transfer is cleared by a
  later transfer that the user declines to sign, and by a network change; neither is a
  dismissal or a successful transfer.
\<close>

theorem error_cleared_otherwise_counterexample:
  "transactionError (state failed_transfer) = Some (Error ''Transaction failed'')
   \<and> transactionError (state (step (SubmitTransfer ''0xB'' ''5'' declined_to_sign) failed_transfer))
       = None
   \<and> transactionError (state (step (NetworkChanged (Some ''1'')) failed_transfer)) = None"
  by (simp add: run_defs)

subsection \<open>Connecting on a wrong network\<close>

text \<open>
  C4, as the code has it. A connect attempt in which the wallet reveals its accounts
  while its network identifier is not "31337" sets the network error to the message
  "Please connect Metamask to Localhost:8545" and does nothing else: the three contract
  handles are as they were (unset when they were unset), no interval timer is started
  and no balance is read.
\<close>

theorem wrong_network_connect:
  "networkVersion d \<noteq> Some ''31337'' \<Longrightarrow>
     snd (connectWallet (Inr accounts) r d)
       = d\<lparr>state := (state d)\<lparr>networkError := Some ''Please connect Metamask to Localhost:8545''\<rparr>\<rparr>
   \<and> networkError (state (snd (connectWallet (Inr accounts) r d)))
       = Some ''Please connect Metamask to Localhost:8545''
   \<and> token (snd (connectWallet (Inr accounts) r d)) = token d
   \<and> orchestrator (snd (connectWallet (Inr accounts) r d)) = orchestrator d
   \<and> farmController (snd (connectWallet (Inr accounts) r d)) = farmController d
   \<and> intervals (snd (connectWallet (Inr accounts) r d)) = intervals d
   \<and> pollDataInterval (snd (connectWallet (Inr accounts) r d)) = pollDataInterval d
   \<and> trace (snd (connectWallet (Inr accounts) r d)) = trace d"
  by (simp add: connectWallet_def checkNetwork_def HARDHAT_NETWORK_ID_def setState_def)

theorem wrong_network_connect_witness:
  "networkVersion (constructor (Some ''1'')) \<noteq> Some ''31337''
   \<and> networkError (state (snd (connectWallet (Inr [''0xA'']) reads_Test (constructor (Some ''1'')))))
       = Some ''Please connect Metamask to Localhost:8545''
   \<and> token (snd (connectWallet (Inr [''0xA'']) reads_Test (constructor (Some ''1'')))) = None
   \<and> orchestrator (snd (connectWallet (Inr [''0xA'']) reads_Test (constructor (Some ''1'')))) = None
   \<and> farmController (snd (connectWallet (Inr [''0xA'']) reads_Test (constructor (Some ''1'')))) = None
   \<and> intervals (snd (connectWallet (Inr [''0xA'']) reads_Test (constructor (Some ''1'')))) = []"
proof -
  have wrong: "networkVersion (constructor (Some ''1'')) \<noteq> Some ''31337''"
    by (simp add: constructor_def)
  show ?thesis
    using wrong wrong_network_connect [OF wrong, of "[''0xA'']" reads_Test]
    by (simp add: constructor_def)
qed

text \<open>
  C4 as stated fails in two ways. When the user declines to reveal the accounts, the
  attempt ends before the network is checked, and no network error is set although the
  wallet is on network "1". And when the component was connected before and the wallet
  then changed to network "1", a connect attempt sets the network error while the
  three handles of the earlier session are still set.
\<close>

theorem declined_connect_counterexample:
  "networkVersion (constructor (Some ''1'')) \<noteq> Some ''31337''
   \<and> networkError (state (snd (connectWallet (Inl user_rejected) reads_Test (constructor (Some ''1'')))))
       = None
   \<and> networkVersion (step (NetworkChanged (Some ''1'')) connected) \<noteq> Some ''31337''
   \<and> networkError (state (step (ClickConnect (Inr [''0xA'']) reads_Test)
         (step (NetworkChanged (Some ''1'')) connected)))
       = Some ''Please connect Metamask to Localhost:8545''
   \<and> token (step (ClickConnect (Inr [''0xA'']) reads_Test)
         (step (NetworkChanged (Some ''1'')) connected))
       = Some UFragments"
  by (simp add: run_defs)

subsection \<open>Balance polling\<close>

text \<open>
  C7. Unmounting the component, and a session reset by an account removal, an account
  change or a network change, stop balance polling, so that no polling timer set before
  stays active past that point and no balance is read after an unmount. The comment in
  \<open>componentWillUnmount\<close> says so, and after one connect the code does it. After two
  clicks on Connect that were both answered it does not: \<open>_connectWallet\<close> starts
  polling without stopping it first (the \<open>accountsChanged\<close> handler does stop it
  first), so the handle of the first timer is overwritten, and unmounting, a network
  change and an account removal clear the second timer only; the first one stays active
  and goes on reading the balance. Nor does unmounting remove the wallet listeners: an
  account change after the unmount starts polling again.
\<close>

theorem unmount_leaves_interval:
  "intervals (step Unmount connected) = []
   \<and> intervals connected_twice = [(1, 1000), (2, 1000)]
   \<and> pollDataInterval connected_twice = Some 2
   \<and> pollDataInterval (step Unmount connected_twice) = None
   \<and> intervals (step Unmount connected_twice) = [(1, 1000)]
   \<and> trace (step (IntervalFires 1 (Inr 100)) (step Unmount connected_twice))
       = trace (step Unmount connected_twice) @ [CallBalanceOf (Some ''0xA'')]
   \<and> intervals (step (NetworkChanged (Some ''1'')) connected_twice) = [(1, 1000)]
   \<and> intervals (step (AccountsChanged [] reads_Test) connected_twice) = [(1, 1000)]
   \<and> intervals (step (AccountsChanged [''0xB''] reads_Test) (step Unmount connected))
       = [(2, 1000)]"
  by (simp add: run_defs)

text \<open>
  C8. Starting a session sets one interval timer of period 1000 ms, which the component
  holds, and reads the balance of the session's address once at once; each time that
  timer fires the balance is read again, and the timer stays active.
  \<open>_startPollingData\<close> alone does the same whenever the token handle is set.
\<close>

theorem polling_starts:
  "intervals (initialize a r d) = intervals d @ [(nextInterval d, 1000)]
   \<and> pollDataInterval (initialize a r d) = Some (nextInterval d)
   \<and> filter is_balance_read (trace (initialize a r d))
       = filter is_balance_read (trace d) @ [CallBalanceOf a]
   \<and> trace (step (IntervalFires (nextInterval d) b) (initialize a r d))
       = trace (initialize a r d) @ [CallBalanceOf a]
   \<and> intervals (step (IntervalFires (nextInterval d) b) (initialize a r d))
       = intervals (initialize a r d)
   \<and> intervals (startPollingData b d) = intervals d @ [(nextInterval d, 1000)]
   \<and> (token d \<noteq> None \<longrightarrow>
        trace (startPollingData b d) = trace d @ [CallBalanceOf (selectedAddress (state d))])"
proof (intro conjI impI)
  have active: "nextInterval d \<in> set (map fst (intervals (initialize a r d)))"
    by (simp add: initialize_window)
  show "trace (step (IntervalFires (nextInterval d) b) (initialize a r d))
      = trace (initialize a r d) @ [CallBalanceOf a]"
    using active by (simp add: updateBalance_reads initialize_session)
  show "intervals (step (IntervalFires (nextInterval d) b) (initialize a r d))
      = intervals (initialize a r d)"
    by (simp add: updateBalance_window)
qed (simp_all add: initialize_window initialize_reads startPollingData_window
    startPollingData_reads)

theorem polling_starts_witness:
  "token connected \<noteq> None
   \<and> intervals (initialize (Some ''0xA'') reads_Test (constructor (Some ''31337''))) = [(1, 1000)]
   \<and> trace (startPollingData (Inr 100) connected)
       = trace connected @ [CallBalanceOf (Some ''0xA'')]"
  using polling_starts [of "Some ''0xA''" reads_Test "constructor (Some ''31337'')" "Inr 100"]
    polling_starts [of "Some ''0xA''" reads_Test connected "Inr 100"]
  by (simp add: run_defs)

subsection \<open>Dismissing a transaction error\<close>

text \<open>
  C9. Dismissing a transaction error sets the transaction-error field to undefined and
  changes nothing else: the other seven fields of the state keep their values, and so
  does everything outside the state.
\<close>

theorem dismissTransactionError_frame:
  "dismissTransactionError d = d\<lparr>state := (state d)\<lparr>transactionError := None\<rparr>\<rparr>
   \<and> transactionError (state (dismissTransactionError d)) = None
   \<and> tokenData (state (dismissTransactionError d)) = tokenData (state d)
   \<and> selectedAddress (state (dismissTransactionError d)) = selectedAddress (state d)
   \<and> balance (state (dismissTransactionError d)) = balance (state d)
   \<and> txBeingSent (state (dismissTransactionError d)) = txBeingSent (state d)
   \<and> networkError (state (dismissTransactionError d)) = networkError (state d)
   \<and> isDarkTheme (state (dismissTransactionError d)) = isDarkTheme (state d)
   \<and> isProcessing (state (dismissTransactionError d)) = isProcessing (state d)"
  by (simp add: dismissTransactionError_def setState_def)

subsection \<open>The transfer form\<close>

text \<open>
  C10. A submission of the transfer form calls the transfer operation only when the
  amount is not empty, is not the string "0", and the recipient is not empty; when one
  of the three fails, the form shows an alert and does not call it.
\<close>

theorem onSubmit_guard:
  "(onSubmit td = TransferTokensCall recipient amt \<longrightarrow>
      amount td \<noteq> AmountUndefined \<and> amount td \<noteq> AmountString [] \<and>
      amount td \<noteq> AmountString ''0'' \<and> to td = Some recipient \<and> recipient \<noteq> [])
   \<and> (amount td = AmountUndefined \<or> amount td = AmountString [] \<or>
        amount td = AmountString ''0'' \<or> to td = None \<or> to td = Some [] \<longrightarrow>
        onSubmit td = Alert ''Amount is invalid!'' \<or> onSubmit td = Alert ''Address is invalid!'')"
  by (cases "amount td") (auto simp: onSubmit_def split: option.splits if_splits)

theorem onSubmit_guard_witness:
  "onSubmit \<lparr>amount = AmountString ''5'', to = Some ''0xB''\<rparr> = TransferTokensCall ''0xB'' ''5''
   \<and> onSubmit \<lparr>amount = AmountString ''0'', to = Some ''0xB''\<rparr> = Alert ''Amount is invalid!''
   \<and> onSubmit \<lparr>amount = AmountString ''5'', to = Some []\<rparr> = Alert ''Address is invalid!''"
  using onSubmit_guard [of "\<lparr>amount = AmountString ''5'', to = Some ''0xB''\<rparr>" "''0xB''" "''5''"]
    onSubmit_guard [of "\<lparr>amount = AmountString ''0'', to = Some ''0xB''\<rparr>" "''0xB''" "''5''"]
    onSubmit_guard [of "\<lparr>amount = AmountString ''5'', to = Some []\<rparr>" "''0xB''" "''5''"]
  by (simp add: onSubmit_def)

end
